theory Spec2Isabelle
  imports Main "HOL-Library.Sublist" "HOL-Library.AList"
begin

section \<open>speedlingo: the fork, clone, lint and publish pipeline of main.go\<close>

text \<open>
  The program is one sequential pipeline over external collaborators: the operating
  system, the forge client (go-github), the version-control library (go-git v4), the
  YAML decoder and the lingo executable. The embedding passes an explicit state through
  every call. What a collaborator answers is read from a \<open>world\<close> record; what the
  program does to it is appended to a trace of events and applied to a small model of
  the workspace directory, the index, the local branches and the commit objects.
  Progress messages printed on standard output are left out.
\<close>

subsection \<open>Errors, credentials, constants\<close>

text \<open>A Go error is represented by the text of its \<open>Error()\<close> method.\<close>

type_synonym err = string

text \<open>\<open>errors.Trace\<close> records a location and keeps the message.\<close>

definition errors_Trace :: "err \<Rightarrow> err" where
  "errors_Trace e = e"

text \<open>\<open>errors.Annotate\<close> puts the context before the message of its cause.\<close>

definition errors_Annotate :: "err \<Rightarrow> string \<Rightarrow> err" where
  "errors_Annotate e msg = msg @ '': '' @ e"

record config =
  Username :: string
  Email :: string
  Token :: string

definition config_zero :: config where
  "config_zero = \<lparr>Username = [], Email = [], Token = []\<rparr>"

definition yamlDataReview :: string where
  "yamlDataReview =
     ''tenets:'' @ [CHR 0x0A] @
     ''  - import: codelingo/code-review-comments'' @ [CHR 0x0A] @
     ''  - import: codelingo/effective-go'' @ [CHR 0x0A]"

definition yamlDataRewrite :: string where
  "yamlDataRewrite =
     ''tenets:'' @ [CHR 0x0A] @
     ''  - import: codelingo/effective-go/comment-first-word-as-subject'' @ [CHR 0x0A]"

definition configFile :: string where
  "configFile = ''config.yaml''"

definition ignoreData :: string where
  "ignoreData = ''vendor/''"

definition yamlName :: string where
  "yamlName = ''codelingo.yaml''"

definition ignoreFileName :: string where
  "ignoreFileName = ''.codelingoignore''"

definition commitMessageRewrite :: string where
  "commitMessageRewrite = ''Update comments based on best practices from Effective Go''"

definition branchName :: string where
  "branchName = ''rewrite''"

text \<open>The message of the fork request that means the fork is on its way (line 75).\<close>

definition scheduledMessage :: string where
  "scheduledMessage = ''job scheduled on GitHub side; try again later''"

text \<open>The error of the \<open>default\<close> case of the mode switch (line 131).\<close>

definition commandNotFound :: err where
  "commandNotFound = ''command not found. Commands available: review, rewrite''"

text \<open>Durations are nanoseconds, as \<open>time.Duration\<close> counts them.\<close>

definition time_Second :: nat where
  "time_Second = 1000000000"

definition time_Minute :: nat where
  "time_Minute = 60 * time_Second"

text \<open>\<open>strings.Contains s sub\<close>: some suffix of \<open>s\<close> starts with \<open>sub\<close>.\<close>

fun contains :: "string \<Rightarrow> string \<Rightarrow> bool" where
  "contains [] sub = (sub = [])"
| "contains (c # s) sub = (prefix sub (c # s) \<or> contains s sub)"

subsection \<open>The workspace, the repository and the trace\<close>

text \<open>
  A working tree maps a path relative to the workspace root to a regular file with its
  content or to a directory. An entry of the root is a path without a slash.
\<close>

datatype node = File string | Dir

type_synonym tree = "(string \<times> node) list"

fun files_of :: "tree \<Rightarrow> (string \<times> string) list" where
  "files_of [] = []"
| "files_of ((p, File c) # t) = (p, c) # files_of t"
| "files_of ((p, Dir) # t) = files_of t"

fun isDir :: "node \<Rightarrow> bool" where
  "isDir Dir = True"
| "isDir (File c) = False"

text \<open>The forge's repository record; \<open>HTMLURL\<close> is a pointer field and may be nil.\<close>

record repository =
  HTMLURL :: "string option"

record commit =
  message :: string
  authorName :: string
  authorEmail :: string
  authorWhen :: nat
  files :: "(string \<times> string) list"

datatype site = InHandleRewrite | InRunCmd

text \<open>The operations that can fail for a reason outside the model.\<close>

datatype op =
    OpMkdirAll
  | OpReadFile
  | OpTempDir
  | OpPlainClone
  | OpChdir site
  | OpWorktree
  | OpCheckout bool
  | OpReadDir
  | OpWriteFile string
  | OpAddGlob
  | OpRemove string
  | OpCommitObject
  | OpPush

datatype event =
    EvMkdirAll string
  | EvReadFile string
  | EvCreateFork string string
  | EvGet string string
  | EvSleep nat
  | EvTempDir
  | EvPlainClone string string
  | EvChdir string
  | EvWorktree
  | EvCheckout bool string
  | EvReadDir string
  | EvWriteFile string string
  | EvRun "string list" tree
  | EvRemoveAll string
  | EvAddGlob string
  | EvRemove string
  | EvCommit string string string
  | EvCommitObject nat
  | EvPush string string string

text \<open>
  What the collaborators answer. \<open>fault\<close> gives the error of an operation that fails
  for an outside reason. A forge call answers after a latency. \<open>commitFault\<close> is the
  error of \<open>Worktree.Commit\<close> with the flag that the commit object had been written
  when it failed (go-git ends with \<open>return commit, w.updateHEAD(commit)\<close>).
\<close>

record world =
  args :: "string list"
  homeDir :: string
  fault :: "op \<Rightarrow> err option"
  configData :: string
  unmarshalStrict :: "string \<Rightarrow> config \<times> err option"
  startTime :: nat
  createFork :: "nat \<times> (err + repository)"
  getRepository :: "nat \<Rightarrow> nat \<times> (err + repository)"
  tempDirName :: string
  cloneTree :: tree
  cloneBranches :: "string list"
  cloneCurrent :: string
  branchTree :: "string \<Rightarrow> tree"
  tool :: "string list \<Rightarrow> tree \<Rightarrow> tree \<times> err option"
  commitFault :: "(bool \<times> err) option"

text \<open>
  \<open>workspace\<close> is the temporary directory on disk (\<open>None\<close>: it does not exist),
  \<open>staged\<close> the index, \<open>objects\<close> the commit objects this run wrote; the hash of
  the \<open>k\<close>-th is \<open>k\<close>, and \<open>0\<close> stands for the zero hash and, in \<open>headCommit\<close>,
  for the commit the clone arrived with. \<open>conf\<close> is the package variable of line 47.
\<close>

record state =
  clock :: nat
  trace :: "event list"
  conf :: config
  workspace :: "tree option"
  staged :: "(string \<times> string) list"
  branches :: "string list"
  current :: string
  objects :: "commit list"
  headCommit :: nat
  pushed :: "nat option"

definition initial :: "world \<Rightarrow> state" where
  "initial w = \<lparr>clock = startTime w, trace = [], conf = config_zero, workspace = None,
     staged = [], branches = [], current = [], objects = [], headCommit = 0,
     pushed = None\<rparr>"

definition ev :: "event \<Rightarrow> state \<Rightarrow> state" where
  "ev e s = s\<lparr>trace := trace s @ [e]\<rparr>"

definition noSuchDirectory :: err where
  "noSuchDirectory = ''no such file or directory''"

subsection \<open>Operating system and forge\<close>

definition reviewResultsDir :: "world \<Rightarrow> string" where
  "reviewResultsDir w = homeDir w @ ''/speedlingo-review-results''"

definition os_MkdirAll :: "world \<Rightarrow> string \<Rightarrow> state \<Rightarrow> err option \<times> state" where
  "os_MkdirAll w path s = (fault w OpMkdirAll, ev (EvMkdirAll path) s)"

definition ioutil_ReadFile :: "world \<Rightarrow> string \<Rightarrow> state \<Rightarrow> (err + string) \<times> state" where
  "ioutil_ReadFile w name s =
     (case fault w OpReadFile of Some e \<Rightarrow> Inl e | None \<Rightarrow> Inr (configData w),
      ev (EvReadFile name) s)"

definition client_CreateFork ::
  "world \<Rightarrow> string \<Rightarrow> string \<Rightarrow> state \<Rightarrow> (err + repository) \<times> state" where
  "client_CreateFork w owner repo s =
     (snd (createFork w),
      (ev (EvCreateFork owner repo) s)\<lparr>clock := clock s + fst (createFork w)\<rparr>)"

text \<open>The \<open>k\<close>-th readiness query of the run.\<close>

definition client_Get ::
  "world \<Rightarrow> nat \<Rightarrow> string \<Rightarrow> string \<Rightarrow> state \<Rightarrow> (err + repository) \<times> state" where
  "client_Get w k owner repo s =
     (snd (getRepository w k),
      (ev (EvGet owner repo) s)\<lparr>clock := clock s + fst (getRepository w k)\<rparr>)"

definition time_Sleep :: "nat \<Rightarrow> state \<Rightarrow> state" where
  "time_Sleep d s = (ev (EvSleep d) s)\<lparr>clock := clock s + d\<rparr>"

definition ioutil_TempDir :: "world \<Rightarrow> state \<Rightarrow> (err + string) \<times> state" where
  "ioutil_TempDir w s =
     (case fault w OpTempDir of
        Some e \<Rightarrow> (Inl e, ev EvTempDir s)
      | None \<Rightarrow> (Inr (tempDirName w), (ev EvTempDir s)\<lparr>workspace := Some []\<rparr>))"

text \<open>\<open>os.RemoveAll\<close>; both call sites drop its error.\<close>

definition os_RemoveAll :: "string \<Rightarrow> state \<Rightarrow> state" where
  "os_RemoveAll dir s = (ev (EvRemoveAll dir) s)\<lparr>workspace := None\<rparr>"

definition os_Chdir :: "world \<Rightarrow> site \<Rightarrow> string \<Rightarrow> state \<Rightarrow> err option \<times> state" where
  "os_Chdir w st dir s =
     (case workspace s of
        None \<Rightarrow> Some noSuchDirectory
      | Some t \<Rightarrow> fault w (OpChdir st),
      ev (EvChdir dir) s)"

text \<open>\<open>ioutil.ReadDir\<close>: the entries of the root, each with its \<open>IsDir()\<close>.\<close>

definition ioutil_ReadDir ::
  "world \<Rightarrow> string \<Rightarrow> state \<Rightarrow> (err + (string \<times> bool) list) \<times> state" where
  "ioutil_ReadDir w dir s =
     (case workspace s of
        None \<Rightarrow> Inl noSuchDirectory
      | Some t \<Rightarrow>
          (case fault w OpReadDir of
             Some e \<Rightarrow> Inl e
           | None \<Rightarrow>
               Inr (map (\<lambda>(p, n). (p, isDir n)) (filter (\<lambda>(p, n). CHR ''/'' \<notin> set p) t))),
      ev (EvReadDir dir) s)"

text \<open>\<open>ioutil.WriteFile\<close> of a file of the workspace root: creates or overwrites.\<close>

definition ioutil_WriteFile ::
  "world \<Rightarrow> string \<Rightarrow> string \<Rightarrow> state \<Rightarrow> err option \<times> state" where
  "ioutil_WriteFile w name content s =
     (case workspace s of
        None \<Rightarrow> (Some noSuchDirectory, ev (EvWriteFile name content) s)
      | Some t \<Rightarrow>
          (case fault w (OpWriteFile name) of
             Some e \<Rightarrow> (Some e, ev (EvWriteFile name content) s)
           | None \<Rightarrow>
               (None, (ev (EvWriteFile name content) s)
                  \<lparr>workspace := Some (AList.update name (File content) t)\<rparr>)))"

text \<open>
  \<open>cmd.Run\<close>: the executable rewrites the working directory and exits. The event
  records the argument list and the working tree the executable starts on.
\<close>

definition cmd_Run :: "world \<Rightarrow> string list \<Rightarrow> state \<Rightarrow> err option \<times> state" where
  "cmd_Run w cmd s =
     (case workspace s of
        None \<Rightarrow> (Some noSuchDirectory, ev (EvRun cmd []) s)
      | Some t \<Rightarrow>
          (snd (tool w cmd t),
           (ev (EvRun cmd t) s)\<lparr>workspace := Some (AList.clearjunk (fst (tool w cmd t)))\<rparr>))"

subsection \<open>Version control (go-git v4), at its documented interface\<close>

text \<open>
  The library is not part of the repository. Each operation is modelled at what its
  documentation states: \<open>PlainClone\<close> fills the directory and the index;
  \<open>Checkout\<close> without \<open>Create\<close> needs the reference to exist (\<open>reference not
  found\<close>), with \<open>Create\<close> it refuses an existing one; \<open>AddGlob\<close> of \<open>.\<close> stages the
  working tree; \<open>Remove\<close> "removes files from the working tree and from the index" and
  needs the entry to be in the index; \<open>Commit\<close> stores the index as a commit object and
  moves HEAD; \<open>CommitObject\<close> looks a hash up; \<open>Push\<close> sends the branch to the remote.
\<close>

definition git_PlainClone ::
  "world \<Rightarrow> string \<Rightarrow> string \<Rightarrow> state \<Rightarrow> err option \<times> state" where
  "git_PlainClone w dir url s =
     (case fault w OpPlainClone of
        Some e \<Rightarrow> (Some e, ev (EvPlainClone dir url) s)
      | None \<Rightarrow>
          (None, (ev (EvPlainClone dir url) s)
             \<lparr>workspace := Some (AList.clearjunk (cloneTree w)),
              staged := files_of (AList.clearjunk (cloneTree w)),
              branches := cloneBranches w,
              current := cloneCurrent w\<rparr>))"

definition git_Worktree :: "world \<Rightarrow> state \<Rightarrow> err option \<times> state" where
  "git_Worktree w s = (fault w OpWorktree, ev EvWorktree s)"

definition referenceNotFound :: err where
  "referenceNotFound = ''reference not found''"

definition branchExists :: "string \<Rightarrow> err" where
  "branchExists b = ''a branch named '' @ [CHR 0x22] @ b @ [CHR 0x22] @ '' already exists''"

definition git_Checkout :: "world \<Rightarrow> bool \<Rightarrow> string \<Rightarrow> state \<Rightarrow> err option \<times> state" where
  "git_Checkout w create b s =
     (case fault w (OpCheckout create) of
        Some e \<Rightarrow> (Some e, ev (EvCheckout create b) s)
      | None \<Rightarrow>
          if create then
            (if b \<in> set (branches s) then (Some (branchExists b), ev (EvCheckout create b) s)
             else (None, (ev (EvCheckout create b) s)
                     \<lparr>branches := b # branches s, current := b\<rparr>))
          else
            (if b \<in> set (branches s) then
               (None, (ev (EvCheckout create b) s)
                  \<lparr>workspace := Some (AList.clearjunk (branchTree w b)),
                   staged := files_of (AList.clearjunk (branchTree w b)),
                   current := b\<rparr>)
             else (Some referenceNotFound, ev (EvCheckout create b) s)))"

definition git_AddGlob :: "world \<Rightarrow> string \<Rightarrow> state \<Rightarrow> err option \<times> state" where
  "git_AddGlob w pattern s =
     (case workspace s of
        None \<Rightarrow> (Some noSuchDirectory, ev (EvAddGlob pattern) s)
      | Some t \<Rightarrow>
          (case fault w OpAddGlob of
             Some e \<Rightarrow> (Some e, ev (EvAddGlob pattern) s)
           | None \<Rightarrow> (None, (ev (EvAddGlob pattern) s)\<lparr>staged := files_of t\<rparr>)))"

definition entryNotFound :: err where
  "entryNotFound = ''entry not found''"

definition git_Remove :: "world \<Rightarrow> string \<Rightarrow> state \<Rightarrow> err option \<times> state" where
  "git_Remove w path s =
     (case fault w (OpRemove path) of
        Some e \<Rightarrow> (Some e, ev (EvRemove path) s)
      | None \<Rightarrow>
          (case map_of (staged s) path of
             None \<Rightarrow> (Some entryNotFound, ev (EvRemove path) s)
           | Some c \<Rightarrow>
               (None, (ev (EvRemove path) s)
                  \<lparr>staged := AList.delete path (staged s),
                   workspace := map_option (AList.delete path) (workspace s)\<rparr>)))"

text \<open>\<open>Worktree.Commit\<close> returns the hash and the error together.\<close>

definition git_Commit ::
  "world \<Rightarrow> string \<Rightarrow> string \<Rightarrow> string \<Rightarrow> state \<Rightarrow> (nat \<times> err option) \<times> state" where
  "git_Commit w msg name email s =
     (let c = \<lparr>message = msg, authorName = name, authorEmail = email,
                authorWhen = clock s, files = staged s\<rparr>;
          h = Suc (length (objects s));
          s1 = ev (EvCommit msg name email) s
      in case commitFault w of
           None \<Rightarrow> ((h, None), s1\<lparr>objects := objects s @ [c], headCommit := h\<rparr>)
         | Some (written, e) \<Rightarrow>
             if written then ((h, Some e), s1\<lparr>objects := objects s @ [c]\<rparr>)
             else ((0, Some e), s1))"

definition objectNotFound :: err where
  "objectNotFound = ''object not found''"

definition git_CommitObject :: "world \<Rightarrow> nat \<Rightarrow> state \<Rightarrow> err option \<times> state" where
  "git_CommitObject w h s =
     (case fault w OpCommitObject of
        Some e \<Rightarrow> Some e
      | None \<Rightarrow> if h = 0 \<or> length (objects s) < h then Some objectNotFound else None,
      ev (EvCommitObject h) s)"

definition git_Push ::
  "world \<Rightarrow> string \<Rightarrow> string \<Rightarrow> string \<Rightarrow> state \<Rightarrow> err option \<times> state" where
  "git_Push w remote user password s =
     (case fault w OpPush of
        Some e \<Rightarrow> (Some e, ev (EvPush remote user password) s)
      | None \<Rightarrow> (None, (ev (EvPush remote user password) s)\<lparr>pushed := Some (headCommit s)\<rparr>))"

subsection \<open>The program\<close>

text \<open>
  The idiom \<open>if err != nil { return errors.Trace(err) }\<close>: \<open>check\<close> for a call that
  returns an error only, \<open>checkVal\<close> for one that returns a value and an error.
\<close>

definition check ::
  "err option \<times> state \<Rightarrow> (state \<Rightarrow> err option \<times> state) \<Rightarrow> err option \<times> state" where
  "check r k = (case r of (Some e, s) \<Rightarrow> (Some (errors_Trace e), s) | (None, s) \<Rightarrow> k s)"

definition checkVal ::
  "(err + 'a) \<times> state \<Rightarrow> ('a \<Rightarrow> state \<Rightarrow> err option \<times> state) \<Rightarrow> err option \<times> state" where
  "checkVal r k = (case r of (Inl e, s) \<Rightarrow> (Some (errors_Trace e), s) | (Inr v, s) \<Rightarrow> k v s)"

text \<open>Lines 298 to 306. The error of the strict decoder is assigned and never read.\<close>

definition unmarshalConfigFile :: "world \<Rightarrow> state \<Rightarrow> (err + config) \<times> state" where
  "unmarshalConfigFile w s =
     (case ioutil_ReadFile w configFile s of
        (Inl e, s1) \<Rightarrow> (Inl (errors_Trace e), s1)
      | (Inr str, s1) \<Rightarrow>
          (case unmarshalStrict w str of (result, e) \<Rightarrow> (Inr result, s1)))"

text \<open>Lines 135 to 150.\<close>

definition runCmd :: "world \<Rightarrow> string \<Rightarrow> string list \<Rightarrow> state \<Rightarrow> err option \<times> state" where
  "runCmd w dir cmd s =
     check (os_Chdir w InRunCmd dir s) (\<lambda>s1.
       case cmd_Run w cmd s1 of
         (Some e, s2) \<Rightarrow> (Some (errors_Annotate e ''cmd.Run() failed:''), os_RemoveAll dir s2)
       | (None, s2) \<Rightarrow> (None, s2))"

text \<open>
  The loop of lines 184 to 189 and 268 to 273 over the directory entries, with
  \<open>needsIgnoreFile\<close> as its accumulator.
\<close>

fun scanVendor :: "(string \<times> bool) list \<Rightarrow> bool \<Rightarrow> bool" where
  "scanVendor [] needsIgnoreFile = needsIgnoreFile"
| "scanVendor ((name, isdir) # fs) needsIgnoreFile =
     scanVendor fs (if name = ''vendor'' \<and> isdir then True else needsIgnoreFile)"

text \<open>Lines 152 to 260. The error of \<open>Commit\<close> is overwritten by line 236.\<close>

definition handleRewrite ::
  "world \<Rightarrow> string \<Rightarrow> string \<Rightarrow> string list \<Rightarrow> state \<Rightarrow> err option \<times> state" where
  "handleRewrite w dir token cmd s0 =
     check (os_Chdir w InHandleRewrite dir s0) (\<lambda>s1.
     check (git_Worktree w s1) (\<lambda>s2.
     check (case git_Checkout w False (''refs/heads/'' @ branchName) s2 of
              (Some e, s3) \<Rightarrow> git_Checkout w True (''refs/heads/'' @ branchName) s3
            | (None, s3) \<Rightarrow> (None, s3)) (\<lambda>s4.
     checkVal (ioutil_ReadDir w dir s4) (\<lambda>fs s5.
     check (ioutil_WriteFile w yamlName yamlDataRewrite s5) (\<lambda>s6.
     check (if scanVendor fs False then ioutil_WriteFile w ignoreFileName ignoreData s6
            else (None, s6)) (\<lambda>s7.
     check (runCmd w dir cmd s7) (\<lambda>s8.
     check (git_AddGlob w ''.'' s8) (\<lambda>s9.
     check (git_Remove w yamlName s9) (\<lambda>s10.
     check (if scanVendor fs False then git_Remove w ignoreFileName s10
            else (None, s10)) (\<lambda>s11.
     case git_Commit w commitMessageRewrite (Username (conf s11)) (Email (conf s11)) s11 of
       ((commit, e), s12) \<Rightarrow>
     check (git_CommitObject w commit s12) (\<lambda>s13.
     check (git_Push w ''origin'' ''emptystring'' token s13) (\<lambda>s14.
     (None, s14)))))))))))))"

text \<open>Lines 262 to 296. Line 276 writes \<open>yamlDataRewrite\<close>.\<close>

definition handleReview ::
  "world \<Rightarrow> string \<Rightarrow> string \<Rightarrow> string list \<Rightarrow> state \<Rightarrow> err option \<times> state" where
  "handleReview w dir token cmd s0 =
     checkVal (ioutil_ReadDir w dir s0) (\<lambda>fs s1.
     check (ioutil_WriteFile w yamlName yamlDataRewrite s1) (\<lambda>s2.
     check (if scanVendor fs False then ioutil_WriteFile w ignoreFileName ignoreData s2
            else (None, s2)) (\<lambda>s3.
     check (runCmd w dir cmd s3) (\<lambda>s4.
     (None, s4)))))"

text \<open>
  How the process ends: a normal return of \<open>main\<close>, the usage message with
  \<open>os.Exit(1)\<close>, \<open>log.Fatal\<close> of an error value (which may be nil), or a nil
  dereference.
\<close>

datatype outcome = Success | Usage | Fatal "err option" | Panic

text \<open>
  The loop of lines 81 to 93; \<open>k\<close> counts the queries and \<open>e\<close> is the variable
  \<open>err\<close>. Every failed query is followed by a sleep, so the clock passes the deadline.
\<close>

function pollFork ::
  "world \<Rightarrow> nat \<Rightarrow> string \<Rightarrow> string \<Rightarrow> nat \<Rightarrow> err option \<Rightarrow> state
     \<Rightarrow> (err option + repository) \<times> state" where
  "pollFork w timeout user repo k e s =
     (if timeout < clock s then (Inl e, s)
      else case client_Get w k user repo s of
             (Inl e1, s1) \<Rightarrow>
               pollFork w timeout user repo (Suc k) (Some e1) (time_Sleep (time_Second * 2) s1)
           | (Inr rf, s1) \<Rightarrow> (Inr rf, s1))"
  by pat_completeness auto
termination
  by (relation "measure (\<lambda>(w, timeout, user, repo, k, e, s). Suc timeout - clock s)")
     (auto simp: client_Get_def time_Sleep_def ev_def time_Second_def)

declare pollFork.simps [simp del]

text \<open>
  Lines 105 to 132, the part of \<open>main\<close> that runs with the deferred
  \<open>os.RemoveAll(dir)\<close> registered.
\<close>

definition mainDeferred ::
  "world \<Rightarrow> string \<Rightarrow> string \<Rightarrow> string \<Rightarrow> repository \<Rightarrow> state \<Rightarrow> outcome \<times> state" where
  "mainDeferred w command repo dir rf s =
     (case HTMLURL rf of
        None \<Rightarrow> (Panic, s)
      | Some url \<Rightarrow>
          (case git_PlainClone w dir url s of
             (Some e, s1) \<Rightarrow> (Fatal (Some e), s1)
           | (None, s1) \<Rightarrow>
               if command = ''review'' then
                 (case handleReview w dir (Token (conf s1))
                         [''lingo'', ''run'', ''review'', ''--debug'', ''--keep-all'', ''-o'',
                          reviewResultsDir w @ ''/'' @ repo @ ''-'' @ ''results.json''] s1 of
                    (Some e, s2) \<Rightarrow> (Fatal (Some e), s2)
                  | (None, s2) \<Rightarrow> (Success, s2))
               else if command = ''rewrite'' then
                 (case handleRewrite w dir (Token (conf s1))
                         [''lingo'', ''run'', ''rewrite'', ''--debug'', ''--keep-all''] s1 of
                    (Some e, s2) \<Rightarrow> (Fatal (Some e), s2)
                  | (None, s2) \<Rightarrow> (Success, s2))
               else (Fatal (Some commandNotFound), s1)))"

text \<open>
  Lines 80 to 133, from the deadline on. \<open>log.Fatal\<close> ends the process with
  \<open>os.Exit(1)\<close>, which runs no deferred call; a return and a panic run them.
\<close>

definition mainForked :: "world \<Rightarrow> err option \<Rightarrow> state \<Rightarrow> outcome \<times> state" where
  "mainForked w e s =
     (case pollFork w (clock s + time_Minute * 5) (Username (conf s)) (args w ! 3) 0 e s of
        (Inl e1, s1) \<Rightarrow> (Fatal e1, s1)
      | (Inr rf, s1) \<Rightarrow>
          (case ioutil_TempDir w s1 of
             (Inl e2, s2) \<Rightarrow> (Fatal (Some e2), s2)
           | (Inr dir, s2) \<Rightarrow>
               (case mainDeferred w (args w ! 1) (args w ! 3) dir rf s2 of
                  (Fatal e3, s3) \<Rightarrow> (Fatal e3, s3)
                | (out, s3) \<Rightarrow> (out, os_RemoveAll dir s3))))"

text \<open>Lines 49 to 78.\<close>

definition main :: "world \<Rightarrow> outcome \<times> state" where
  "main w =
     (if length (args w) \<noteq> 4 then (Usage, initial w)
      else
        (case os_MkdirAll w (reviewResultsDir w) (initial w) of
           (Some e, s1) \<Rightarrow> (Fatal (Some e), s1)
         | (None, s1) \<Rightarrow>
             (case unmarshalConfigFile w s1 of
                (Inl e, s2) \<Rightarrow> (Fatal (Some e), s2)
              | (Inr c, s2) \<Rightarrow>
                  (case client_CreateFork w (args w ! 2) (args w ! 3) (s2\<lparr>conf := c\<rparr>) of
                     (Inl e, s3) \<Rightarrow>
                       if \<not> contains e scheduledMessage then (Fatal (Some e), s3)
                       else mainForked w (Some e) s3
                   | (Inr rf, s3) \<Rightarrow> mainForked w None s3))))"

subsection \<open>Predicates on traces\<close>

text \<open>\<open>appends P s s'\<close>: the trace of \<open>s'\<close> is that of \<open>s\<close> with events satisfying \<open>P\<close> added.\<close>

definition appends :: "(event \<Rightarrow> bool) \<Rightarrow> state \<Rightarrow> state \<Rightarrow> bool" where
  "appends P s s' = (\<exists>evs. trace s' = trace s @ evs \<and> list_all P evs)"

fun isCheckout :: "event \<Rightarrow> bool" where
  "isCheckout (EvCheckout c b) = True"
| "isCheckout e = False"

text \<open>The events the timeout must come before.\<close>

fun isCloneCommitPush :: "event \<Rightarrow> bool" where
  "isCloneCommitPush (EvPlainClone d u) = True"
| "isCloneCommitPush (EvCommit m n e) = True"
| "isCloneCommitPush (EvPush r u p) = True"
| "isCloneCommitPush e = False"

text \<open>The readiness query fails at every attempt.\<close>

definition neverReady :: "world \<Rightarrow> bool" where
  "neverReady w = (\<forall>j. isl (snd (getRepository w j)))"





text \<open>A directory of the workspace root literally named \<open>vendor\<close>.\<close>

definition hasVendor :: "tree \<Rightarrow> bool" where
  "hasVendor t = (map_of t ''vendor'' = Some Dir)"

subsection \<open>Concrete runs\<close>

text \<open>
  A run of \<open>speedlingo rewrite acme widget\<close> in which every collaborator succeeds: the
  fork is ready at the first query, the clone has a \<open>vendor\<close> directory and no
  \<open>rewrite\<close> branch, and the executable rewrites one comment.
\<close>

definition exampleConfig :: config where
  "exampleConfig = \<lparr>Username = ''bot'', Email = ''bot@example.org'', Token = ''t0k''\<rparr>"

definition exampleRepository :: repository where
  "exampleRepository = \<lparr>HTMLURL = Some ''https://forge.example/bot/widget''\<rparr>"

definition exampleWorld :: world where
  "exampleWorld =
     \<lparr>args = [''speedlingo'', ''rewrite'', ''acme'', ''widget''],
      homeDir = ''/home/op'',
      fault = (\<lambda>x. None),
      configData = ''username: bot'',
      unmarshalStrict = (\<lambda>x. (exampleConfig, None)),
      startTime = 0,
      createFork = (1, Inr exampleRepository),
      getRepository = (\<lambda>k. (1, Inr exampleRepository)),
      tempDirName = ''/tmp/ws1'',
      cloneTree = [(''main.go'', File ''package main''), (''vendor'', Dir),
                   (''vendor/dep.go'', File ''package dep'')],
      cloneBranches = [''refs/heads/master''],
      cloneCurrent = ''refs/heads/master'',
      branchTree = (\<lambda>b. []),
      tool = (\<lambda>cmd t. (AList.update ''main.go'' (File ''// Package main'') t, None)),
      commitFault = None\<rparr>"

text \<open>The same run in review mode.\<close>

definition reviewWorld :: world where
  "reviewWorld = exampleWorld\<lparr>args := [''speedlingo'', ''review'', ''acme'', ''widget'']\<rparr>"

text \<open>The same run with a mode that is neither \<open>review\<close> nor \<open>rewrite\<close>.\<close>

definition bogusWorld :: world where
  "bogusWorld = exampleWorld\<lparr>args := [''speedlingo'', ''bogus'', ''acme'', ''widget'']\<rparr>"

text \<open>The rewrite run in which the push is refused.\<close>

definition pushFailWorld :: world where
  "pushFailWorld =
     exampleWorld\<lparr>fault := (\<lambda>x. if x = OpPush then Some ''authentication required'' else None)\<rparr>"

text \<open>The rewrite run in which \<open>Commit\<close> writes the commit object and fails to move HEAD.\<close>

definition commitFailWorld :: world where
  "commitFailWorld = exampleWorld\<lparr>commitFault := Some (True, ''reference has changed concurrently'')\<rparr>"

text \<open>
  The rewrite run whose credentials file has a fourth field, which the strict decoder
  reports.
\<close>

definition extraFieldWorld :: world where
  "extraFieldWorld =
     exampleWorld
       \<lparr>configData := ''username: bot'' @ [CHR 0x0A] @ ''email: bot@example.org'' @ [CHR 0x0A] @
                        ''token: t0k'' @ [CHR 0x0A] @ ''shell: /bin/sh'' @ [CHR 0x0A],
        unmarshalStrict :=
          (\<lambda>x. (exampleConfig, Some ''yaml: unmarshal errors: line 4: field shell not found in type main.config''))\<rparr>"

text \<open>The run whose fork request answers "scheduled" and whose fork never shows up.\<close>

definition neverReadyWorld :: world where
  "neverReadyWorld =
     exampleWorld
       \<lparr>createFork := (1, Inl scheduledMessage),
        getRepository := (\<lambda>k. (100 * time_Second, Inl ''404 Not Found''))\<rparr>"

text \<open>The run whose fork request is refused.\<close>

definition forkRefusedWorld :: world where
  "forkRefusedWorld = exampleWorld\<lparr>createFork := (1, Inl ''403 Forbidden'')\<rparr>"

text \<open>The rewrite run on a repository that already has the local branch.\<close>

definition branchWorld :: world where
  "branchWorld =
     exampleWorld
       \<lparr>cloneBranches := [''refs/heads/master'', ''refs/heads/rewrite''],
        branchTree := (\<lambda>b. [(''main.go'', File ''package main'')])\<rparr>"

lemmas model_defs =
  errors_Trace_def errors_Annotate_def config_zero_def configFile_def ignoreData_def
  yamlName_def ignoreFileName_def commitMessageRewrite_def branchName_def
  commandNotFound_def time_Second_def time_Minute_def initial_def ev_def
  noSuchDirectory_def reviewResultsDir_def os_MkdirAll_def ioutil_ReadFile_def
  client_CreateFork_def client_Get_def time_Sleep_def ioutil_TempDir_def os_RemoveAll_def
  os_Chdir_def ioutil_ReadDir_def ioutil_WriteFile_def cmd_Run_def git_PlainClone_def
  git_Worktree_def referenceNotFound_def branchExists_def git_Checkout_def git_AddGlob_def
  entryNotFound_def git_Remove_def git_Commit_def objectNotFound_def git_CommitObject_def
  git_Push_def check_def checkVal_def unmarshalConfigFile_def runCmd_def handleRewrite_def
  handleReview_def pollFork.simps mainDeferred_def mainForked_def main_def

lemmas example_defs =
  exampleConfig_def exampleRepository_def exampleWorld_def reviewWorld_def bogusWorld_def
  pushFailWorld_def commitFailWorld_def extraFieldWorld_def neverReadyWorld_def
  forkRefusedWorld_def branchWorld_def

section \<open>Auxiliary facts\<close>

subsection \<open>Every operation only appends to the trace\<close>

lemma appends_refl: "appends P s s"
  by (simp add: appends_def)

lemma appends_trans: "appends P s s1 \<Longrightarrow> appends P s1 s2 \<Longrightarrow> appends P s s2"
  by (auto simp: appends_def)

lemma appends_ev: "P e \<Longrightarrow> appends P s (ev e s)"
  by (simp add: appends_def ev_def)

lemma appends_prefix: "appends P s s' \<Longrightarrow> prefix (trace s) (trace s')"
  by (auto simp: appends_def)

lemma appends_mem: "appends P s s' \<Longrightarrow> e \<in> set (trace s) \<Longrightarrow> e \<in> set (trace s')"
  by (auto simp: appends_def)

lemma appends_check:
  assumes "appends P s (snd r)" and "\<And>s1. appends P s1 (snd (k s1))"
  shows "appends P s (snd (check r k))"
proof (cases r)
  case (Pair e s1)
  then show ?thesis
    using assms appends_trans [of P s s1 "snd (k s1)"]
    by (cases e) (auto simp: check_def)
qed

lemma appends_checkVal:
  assumes "appends P s (snd r)" and "\<And>v s1. appends P s1 (snd (k v s1))"
  shows "appends P s (snd (checkVal r k))"
proof (cases r)
  case (Pair e s1)
  then show ?thesis
    using assms appends_trans [of P s s1 "snd (k v s1)" for v]
    by (cases e) (auto simp: checkVal_def)
qed

lemma check_None: "check r k = (None, s') \<longleftrightarrow> (\<exists>s. r = (None, s) \<and> k s = (None, s'))"
  by (cases r) (auto simp: check_def split: option.splits)

lemma checkVal_None:
  "checkVal r k = (None, s') \<longleftrightarrow> (\<exists>v s. r = (Inr v, s) \<and> k v s = (None, s'))"
  by (cases r) (auto simp: checkVal_def split: sum.splits)

lemma appends_Chdir: "P (EvChdir dir) \<Longrightarrow> appends P s (snd (os_Chdir w st dir s))"
  by (simp add: os_Chdir_def appends_ev)

lemma appends_Worktree: "P EvWorktree \<Longrightarrow> appends P s (snd (git_Worktree w s))"
  by (simp add: git_Worktree_def appends_ev)

lemma appends_Checkout:
  "P (EvCheckout c b) \<Longrightarrow> appends P s (snd (git_Checkout w c b s))"
  by (auto simp: git_Checkout_def appends_def ev_def split: option.splits)

lemma appends_ReadDir: "P (EvReadDir dir) \<Longrightarrow> appends P s (snd (ioutil_ReadDir w dir s))"
  by (simp add: ioutil_ReadDir_def appends_ev)

lemma appends_WriteFile:
  "P (EvWriteFile n c) \<Longrightarrow> appends P s (snd (ioutil_WriteFile w n c s))"
  by (auto simp: ioutil_WriteFile_def appends_def ev_def split: option.splits)

lemma appends_Run: "(\<And>t. P (EvRun cmd t)) \<Longrightarrow> appends P s (snd (cmd_Run w cmd s))"
  by (auto simp: cmd_Run_def appends_def ev_def split: option.splits)

lemma appends_runCmd:
  assumes "P (EvChdir dir)" "\<And>t. P (EvRun cmd t)" "P (EvRemoveAll dir)"
  shows "appends P s (snd (runCmd w dir cmd s))"
proof -
  have a: "appends P s (snd (os_Chdir w InRunCmd dir s))"
    using assms(1) by (simp add: appends_Chdir)
  have b: "appends P s1
     (snd (case cmd_Run w cmd s1 of
             (Some e, s2) \<Rightarrow> (Some (errors_Annotate e ''cmd.Run() failed:''), os_RemoveAll dir s2)
           | (None, s2) \<Rightarrow> (None, s2)))" for s1
  proof -
    have "appends P s1 (snd (cmd_Run w cmd s1))"
      using assms(2) by (simp add: appends_Run)
    then show ?thesis
      using assms(3)
      by (cases "cmd_Run w cmd s1")
         (auto simp: appends_def os_RemoveAll_def ev_def split: option.splits)
  qed
  show ?thesis
    unfolding runCmd_def using a b by (simp add: appends_check)
qed

lemma appends_AddGlob: "P (EvAddGlob p) \<Longrightarrow> appends P s (snd (git_AddGlob w p s))"
  by (auto simp: git_AddGlob_def appends_def ev_def split: option.splits)

lemma appends_Remove: "P (EvRemove p) \<Longrightarrow> appends P s (snd (git_Remove w p s))"
  by (auto simp: git_Remove_def appends_def ev_def split: option.splits)

lemma appends_Commit:
  "P (EvCommit m n e) \<Longrightarrow> appends P s (snd (git_Commit w m n e s))"
  by (auto simp: git_Commit_def appends_def ev_def Let_def split: option.splits)

lemma appends_CommitObject:
  "P (EvCommitObject h) \<Longrightarrow> appends P s (snd (git_CommitObject w h s))"
  by (simp add: git_CommitObject_def appends_ev)

lemma appends_Push:
  "P (EvPush r u p) \<Longrightarrow> appends P s (snd (git_Push w r u p s))"
  by (auto simp: git_Push_def appends_def ev_def split: option.splits)

lemma appends_if:
  "appends P s (snd a) \<Longrightarrow> appends P s (snd b) \<Longrightarrow> appends P s (snd (if c then a else b))"
  by simp

lemma appends_retry:
  assumes "appends P s (snd r)" and "\<And>s1. appends P s1 (snd (k s1))"
  shows "appends P s (snd (case r of (Some e, s3) \<Rightarrow> k s3 | (None, s3) \<Rightarrow> (None, s3)))"
proof (cases r)
  case (Pair e s1)
  then show ?thesis
    using assms appends_trans [of P s s1 "snd (k s1)"]
    by (cases e) auto
qed

lemma appends_commit:
  assumes "appends P s (snd r)" and "\<And>h e s1. appends P s1 (snd (k h e s1))"
  shows "appends P s (snd (case r of ((h, e), s1) \<Rightarrow> k h e s1))"
proof -
  obtain h e s1 where r: "r = ((h, e), s1)"
    by (metis surj_pair)
  show ?thesis
    using assms appends_trans [of P s s1 "snd (k h e s1)"] by (simp add: r)
qed

lemma appends_None: "appends P s (snd (None, s))"
  by (simp add: appends_refl)

lemmas appends_ops =
  appends_Chdir appends_Worktree appends_Checkout appends_ReadDir appends_WriteFile
  appends_runCmd appends_AddGlob appends_Remove appends_Commit appends_CommitObject
  appends_Push appends_None

lemma appends_handleRewrite:
  assumes "\<And>e. P e"
  shows "appends P s (snd (handleRewrite w dir token cmd s))"
  unfolding handleRewrite_def
  by (intro appends_check appends_checkVal appends_if appends_retry appends_commit
        appends_ops assms)

lemma appends_handleReview:
  assumes "\<And>e. P e"
  shows "appends P s (snd (handleReview w dir token cmd s))"
  unfolding handleReview_def
  by (intro appends_check appends_checkVal appends_if appends_ops assms)

lemma appends_PlainClone:
  "P (EvPlainClone dir url) \<Longrightarrow> appends P s (snd (git_PlainClone w dir url s))"
  by (auto simp: git_PlainClone_def appends_def ev_def split: option.splits)

lemma snd_fatal:
  "snd (case r of (Some e, s2) \<Rightarrow> (Fatal (Some e), s2) | (None, s2) \<Rightarrow> (Success, s2)) = snd r"
  by (cases r; cases "fst r") auto

lemma appends_mainDeferred:
  assumes "\<And>e. P e"
  shows "appends P s (snd (mainDeferred w command repo dir rf s))"
proof (cases "HTMLURL rf")
  case None
  then show ?thesis by (simp add: mainDeferred_def appends_refl)
next
  case (Some url)
  have c: "appends P s (snd (git_PlainClone w dir url s))"
    by (simp add: appends_PlainClone assms)
  obtain r s1 where g: "git_PlainClone w dir url s = (r, s1)"
    by (metis surj_pair)
  have rv: "appends P s (snd (handleReview w dir token cmd s1))" for token cmd
    using c appends_handleReview [of P s1 w dir token cmd] assms
    by (auto simp: g intro: appends_trans)
  have rw: "appends P s (snd (handleRewrite w dir token cmd s1))" for token cmd
    using c appends_handleRewrite [of P s1 w dir token cmd] assms
    by (auto simp: g intro: appends_trans)
  show ?thesis
  proof (cases r)
    case None
    then show ?thesis
      using c rv rw by (simp add: mainDeferred_def Some g snd_fatal)
  next
    case (Some e)
    then show ?thesis
      using c by (simp add: mainDeferred_def \<open>HTMLURL rf = Some url\<close> g)
  qed
qed

lemma appends_pollFork:
  "P (EvGet u r) \<Longrightarrow> P (EvSleep (time_Second * 2)) \<Longrightarrow>
   appends P s (snd (pollFork w T u r k e s))"
proof (induction w T u r k e s rule: pollFork.induct)
  case (1 w T u r k e s)
  show ?case
  proof (cases "T < clock s")
    case True
    then show ?thesis by (subst pollFork.simps) (simp add: appends_refl)
  next
    case False
    show ?thesis
    proof (cases "snd (getRepository w k)")
      case (Inl e1)
      have g: "client_Get w k u r s =
          (Inl e1, (ev (EvGet u r) s)\<lparr>clock := clock s + fst (getRepository w k)\<rparr>)"
        by (simp add: client_Get_def Inl)
      have a: "appends P s
          (time_Sleep (time_Second * 2) ((ev (EvGet u r) s)\<lparr>clock := clock s + fst (getRepository w k)\<rparr>))"
        using "1.prems" by (simp add: appends_def time_Sleep_def ev_def)
      show ?thesis
        using False g a "1.IH" [OF False g [symmetric] refl "1.prems"]
        by (subst pollFork.simps) (auto simp: g intro: appends_trans)
    next
      case (Inr rf)
      then show ?thesis
        using False "1.prems"
        by (subst pollFork.simps) (simp add: client_Get_def appends_def ev_def)
    qed
  qed
qed

text \<open>With the deadline ahead, the loop issues a query.\<close>

lemma pollFork_first_query:
  assumes "clock s \<le> T"
  shows "prefix (trace s @ [EvGet u r]) (trace (snd (pollFork w T u r k e s)))"
proof (cases "snd (getRepository w k)")
  case (Inl e1)
  have "appends (\<lambda>e. True) (time_Sleep (time_Second * 2) (snd (client_Get w k u r s)))
          (snd (pollFork w T u r (Suc k) (Some e1)
             (time_Sleep (time_Second * 2) (snd (client_Get w k u r s)))))"
    by (rule appends_pollFork) simp_all
  then have "prefix (trace s @ [EvGet u r, EvSleep (time_Second * 2)])
      (trace (snd (pollFork w T u r (Suc k) (Some e1)
         (time_Sleep (time_Second * 2) (snd (client_Get w k u r s))))))"
    by (auto simp: appends_def client_Get_def time_Sleep_def ev_def)
  then have "prefix (trace s @ [EvGet u r])
      (trace (snd (pollFork w T u r (Suc k) (Some e1)
         (time_Sleep (time_Second * 2) (snd (client_Get w k u r s))))))"
    using append_prefixD [of "trace s @ [EvGet u r]" "[EvSleep (time_Second * 2)]"]
    by simp
  then show ?thesis
    using assms Inl by (subst pollFork.simps) (simp add: client_Get_def)
next
  case (Inr rf)
  then show ?thesis
    using assms by (subst pollFork.simps) (simp add: client_Get_def ev_def)
qed

lemma appends_TempDir: "P EvTempDir \<Longrightarrow> appends P s (snd (ioutil_TempDir w s))"
  by (auto simp: ioutil_TempDir_def appends_def ev_def split: option.splits)

lemma appends_mainForked_tail:
  assumes "\<And>e. P e"
  shows "appends P s
     (snd (case ioutil_TempDir w s of
             (Inl e2, s2) \<Rightarrow> (Fatal (Some e2), s2)
           | (Inr dir, s2) \<Rightarrow>
               (case mainDeferred w c repo dir rf s2 of
                  (Fatal e3, s3) \<Rightarrow> (Fatal e3, s3)
                | (out, s3) \<Rightarrow> (out, os_RemoveAll dir s3))))"
proof -
  have t: "appends P s (snd (ioutil_TempDir w s))"
    by (simp add: appends_TempDir assms)
  obtain x s2 where g: "ioutil_TempDir w s = (x, s2)"
    by (metis surj_pair)
  show ?thesis
  proof (cases x)
    case (Inl e2)
    then show ?thesis using t by (simp add: g)
  next
    case (Inr dir)
    obtain out s3 where m: "mainDeferred w c repo dir rf s2 = (out, s3)"
      by (metis surj_pair)
    have "appends P s2 s3"
      using appends_mainDeferred [of P s2 w c repo dir rf] assms by (simp add: m)
    then have a: "appends P s s3"
      using t by (auto simp: g intro: appends_trans)
    then have "appends P s (os_RemoveAll dir s3)"
      using assms by (auto simp: appends_def os_RemoveAll_def ev_def)
    then show ?thesis
      using a by (cases out) (simp_all add: g Inr m)
  qed
qed

subsection \<open>The fork request and the first query\<close>

text \<open>\<open>contains\<close> is the substring relation.\<close>

lemma contains_sublist: "contains s sub \<longleftrightarrow> sublist sub s"
  by (induction s) (auto simp: sublist_Cons_right)

lemma mainForked_first_query:
  "prefix (trace s @ [EvGet (Username (conf s)) (args w ! 3)]) (trace (snd (mainForked w e s)))"
proof -
  obtain x s1 where p:
    "pollFork w (clock s + time_Minute * 5) (Username (conf s)) (args w ! 3) 0 e s = (x, s1)"
    by (metis surj_pair)
  have q: "prefix (trace s @ [EvGet (Username (conf s)) (args w ! 3)]) (trace s1)"
    using pollFork_first_query [of s "clock s + time_Minute * 5" "Username (conf s)"
        "args w ! 3" w 0 e]
    by (simp add: p)
  show ?thesis
  proof (cases x)
    case (Inl e1)
    then show ?thesis using q by (simp add: mainForked_def p)
  next
    case (Inr rf)
    have "appends (\<lambda>e. True) s1
     (snd (case ioutil_TempDir w s1 of
             (Inl e2, s2) \<Rightarrow> (Fatal (Some e2), s2)
           | (Inr dir, s2) \<Rightarrow>
               (case mainDeferred w (args w ! 1) (args w ! 3) dir rf s2 of
                  (Fatal e3, s3) \<Rightarrow> (Fatal e3, s3)
                | (out, s3) \<Rightarrow> (out, os_RemoveAll dir s3))))"
      by (rule appends_mainForked_tail) simp
    then have "prefix (trace s1) (trace (snd (mainForked w e s)))"
      by (simp add: mainForked_def p Inr appends_prefix)
    then show ?thesis
      using q prefix_order.trans by blast
  qed
qed

subsection \<open>The polling loop when the fork never shows up\<close>

lemma pollFork_never:
  "neverReady w \<Longrightarrow>
   \<exists>n. fst (pollFork w T u r k e s) =
       Inl (if n = 0 then e else Some (projl (snd (getRepository w (k + n - 1))))) \<and>
     trace (snd (pollFork w T u r k e s)) =
       trace s @ concat (replicate n [EvGet u r, EvSleep (time_Second * 2)]) \<and>
     T < clock (snd (pollFork w T u r k e s)) \<and>
     (n = 0 \<longleftrightarrow> T < clock s) \<and>
     (n = 0 \<longrightarrow> clock (snd (pollFork w T u r k e s)) = clock s) \<and>
     (0 < n \<longrightarrow> clock (snd (pollFork w T u r k e s)) \<le>
        T + fst (getRepository w (k + n - 1)) + time_Second * 2)"
proof (induction w T u r k e s rule: pollFork.induct)
  case (1 w T u r k e s)
  show ?case
  proof (cases "T < clock s")
    case True
    have "pollFork w T u r k e s = (Inl e, s)"
      using True by (subst pollFork.simps) simp
    then show ?thesis
      using True by (intro exI [of _ 0]) simp
  next
    case False
    obtain e1 where e1: "snd (getRepository w k) = Inl e1"
      using "1.prems" unfolding neverReady_def by (metis isl_def)
    define s1 where "s1 = (ev (EvGet u r) s)\<lparr>clock := clock s + fst (getRepository w k)\<rparr>"
    define s2 where "s2 = time_Sleep (time_Second * 2) s1"
    have g: "client_Get w k u r s = (Inl e1, s1)"
      by (simp add: client_Get_def e1 s1_def)
    have unf: "pollFork w T u r k e s = pollFork w T u r (Suc k) (Some e1) s2"
      using False by (subst pollFork.simps) (simp add: g s2_def)
    have tr2: "trace s2 = trace s @ [EvGet u r, EvSleep (time_Second * 2)]"
      by (simp add: s2_def time_Sleep_def s1_def ev_def)
    have cl2: "clock s2 = clock s + fst (getRepository w k) + time_Second * 2"
      by (simp add: s2_def time_Sleep_def s1_def ev_def)
    obtain n where ih:
      "fst (pollFork w T u r (Suc k) (Some e1) s2) =
         Inl (if n = 0 then Some e1
              else Some (projl (snd (getRepository w (Suc k + n - 1)))))"
      "trace (snd (pollFork w T u r (Suc k) (Some e1) s2)) =
         trace s2 @ concat (replicate n [EvGet u r, EvSleep (time_Second * 2)])"
      "T < clock (snd (pollFork w T u r (Suc k) (Some e1) s2))"
      "n = 0 \<longleftrightarrow> T < clock s2"
      "n = 0 \<longrightarrow> clock (snd (pollFork w T u r (Suc k) (Some e1) s2)) = clock s2"
      "0 < n \<longrightarrow> clock (snd (pollFork w T u r (Suc k) (Some e1) s2)) \<le>
         T + fst (getRepository w (Suc k + n - 1)) + time_Second * 2"
      using "1.IH" [OF False g [symmetric] refl "1.prems"] unfolding s2_def by blast
    have a: "fst (pollFork w T u r k e s) =
        Inl (if Suc n = 0 then e else Some (projl (snd (getRepository w (k + Suc n - 1)))))"
      using ih(1) by (simp add: unf e1)
    have b: "trace (snd (pollFork w T u r k e s)) =
        trace s @ concat (replicate (Suc n) [EvGet u r, EvSleep (time_Second * 2)])"
      using ih(2) by (simp add: unf tr2)
    have c: "T < clock (snd (pollFork w T u r k e s))"
      using ih(3) by (simp add: unf)
    have d: "clock (snd (pollFork w T u r k e s)) \<le>
        T + fst (getRepository w (k + Suc n - 1)) + time_Second * 2"
    proof (cases "n = 0")
      case True
      then show ?thesis using ih(5) False by (simp add: unf cl2)
    next
      case False
      then show ?thesis using ih(6) by (simp add: unf)
    qed
    show ?thesis
      using a b c d False by (intro exI [of _ "Suc n"]) simp
  qed
qed

lemma pollFork_frame:
  "conf (snd (pollFork w T u r k e s)) = conf s \<and>
   workspace (snd (pollFork w T u r k e s)) = workspace s \<and>
   staged (snd (pollFork w T u r k e s)) = staged s \<and>
   branches (snd (pollFork w T u r k e s)) = branches s \<and>
   current (snd (pollFork w T u r k e s)) = current s \<and>
   objects (snd (pollFork w T u r k e s)) = objects s \<and>
   headCommit (snd (pollFork w T u r k e s)) = headCommit s \<and>
   pushed (snd (pollFork w T u r k e s)) = pushed s"
proof (induction w T u r k e s rule: pollFork.induct)
  case (1 w T u r k e s)
  show ?case
  proof (cases "T < clock s")
    case True
    then show ?thesis by (subst (1 2 3 4 5 6 7 8) pollFork.simps) simp
  next
    case False
    show ?thesis
    proof (cases "snd (getRepository w k)")
      case (Inl e1)
      define s1 where "s1 = (ev (EvGet u r) s)\<lparr>clock := clock s + fst (getRepository w k)\<rparr>"
      have g: "client_Get w k u r s = (Inl e1, s1)"
        by (simp add: client_Get_def Inl s1_def)
      have unf: "pollFork w T u r k e s =
          pollFork w T u r (Suc k) (Some e1) (time_Sleep (time_Second * 2) s1)"
        using False by (subst pollFork.simps) (simp add: g)
      show ?thesis
        using "1.IH" [OF False g [symmetric] refl]
        by (simp add: unf time_Sleep_def s1_def ev_def)
    next
      case (Inr rf)
      have "pollFork w T u r k e s =
          (Inr rf, (ev (EvGet u r) s)\<lparr>clock := clock s + fst (getRepository w k)\<rparr>)"
        using False Inr by (subst pollFork.simps) (simp add: client_Get_def)
      then show ?thesis by (simp add: ev_def)
    qed
  qed
qed

subsection \<open>A mode that is neither review nor rewrite\<close>



subsection \<open>A rewrite pipeline that returns no error\<close>



lemma commit_case_None:
  "(case r of ((h, e), s) \<Rightarrow> k h e s) = (None, s') \<longleftrightarrow>
   (\<exists>h e s. r = ((h, e), s) \<and> k h e s = (None, s'))"
  by (cases r) auto

lemma handleRewrite_steps:
  assumes "handleRewrite w dir token cmd s0 = (None, s')"
  obtains s1 s2 s4 fs s5 s6 s7 s8 s9 s10 s11 h e s12 s13 where
      "os_Chdir w InHandleRewrite dir s0 = (None, s1)"
      "git_Worktree w s1 = (None, s2)"
      "(case git_Checkout w False (''refs/heads/'' @ branchName) s2 of
         (Some e, s3) \<Rightarrow> git_Checkout w True (''refs/heads/'' @ branchName) s3
       | (None, s3) \<Rightarrow> (None, s3)) = (None, s4)"
      "ioutil_ReadDir w dir s4 = (Inr fs, s5)"
      "ioutil_WriteFile w yamlName yamlDataRewrite s5 = (None, s6)"
      "(if scanVendor fs False then ioutil_WriteFile w ignoreFileName ignoreData s6
       else (None, s6)) = (None, s7)"
      "runCmd w dir cmd s7 = (None, s8)"
      "git_AddGlob w ''.'' s8 = (None, s9)"
      "git_Remove w yamlName s9 = (None, s10)"
      "(if scanVendor fs False then git_Remove w ignoreFileName s10 else (None, s10)) =
        (None, s11)"
      "git_Commit w commitMessageRewrite (Username (conf s11)) (Email (conf s11)) s11 =
        ((h, e), s12)"
      "git_CommitObject w h s12 = (None, s13)"
      "git_Push w ''origin'' ''emptystring'' token s13 = (None, s')"
  using assms unfolding handleRewrite_def check_None checkVal_None commit_case_None
  by blast

lemma os_Chdir_None:
  "os_Chdir w st dir s = (None, s1) \<longleftrightarrow>
   (\<exists>t. workspace s = Some t) \<and> fault w (OpChdir st) = None \<and> s1 = ev (EvChdir dir) s"
  by (auto simp: os_Chdir_def split: option.splits)

lemma git_Worktree_None:
  "git_Worktree w s = (None, s1) \<longleftrightarrow> fault w OpWorktree = None \<and> s1 = ev EvWorktree s"
  by (auto simp: git_Worktree_def)

lemma ioutil_ReadDir_Inr:
  "ioutil_ReadDir w dir s = (Inr fs, s1) \<longleftrightarrow>
   (\<exists>t. workspace s = Some t \<and> fault w OpReadDir = None \<and>
      fs = map (\<lambda>(p, n). (p, isDir n)) (filter (\<lambda>(p, n). CHR ''/'' \<notin> set p) t)) \<and>
   s1 = ev (EvReadDir dir) s"
  by (auto simp: ioutil_ReadDir_def split: option.splits)

lemma ioutil_WriteFile_None:
  "ioutil_WriteFile w name content s = (None, s1) \<longleftrightarrow>
   (\<exists>t. workspace s = Some t \<and> fault w (OpWriteFile name) = None \<and>
      s1 = (ev (EvWriteFile name content) s)
             \<lparr>workspace := Some (AList.update name (File content) t)\<rparr>)"
  by (auto simp: ioutil_WriteFile_def split: option.splits)

lemma runCmd_None:
  "runCmd w dir cmd s = (None, s1) \<longleftrightarrow>
   (\<exists>t. workspace s = Some t \<and> fault w (OpChdir InRunCmd) = None \<and>
      snd (tool w cmd t) = None \<and>
      s1 = (ev (EvRun cmd t) (ev (EvChdir dir) s))
             \<lparr>workspace := Some (AList.clearjunk (fst (tool w cmd t)))\<rparr>)"
  by (auto simp: runCmd_def check_None os_Chdir_None cmd_Run_def ev_def
      split: option.splits prod.splits)

lemma git_AddGlob_None:
  "git_AddGlob w p s = (None, s1) \<longleftrightarrow>
   (\<exists>t. workspace s = Some t \<and> fault w OpAddGlob = None \<and>
      s1 = (ev (EvAddGlob p) s)\<lparr>staged := files_of t\<rparr>)"
  by (auto simp: git_AddGlob_def split: option.splits)

lemma git_Remove_None:
  "git_Remove w p s = (None, s1) \<longleftrightarrow>
   fault w (OpRemove p) = None \<and> (\<exists>c. map_of (staged s) p = Some c) \<and>
   s1 = (ev (EvRemove p) s)
          \<lparr>staged := AList.delete p (staged s),
           workspace := map_option (AList.delete p) (workspace s)\<rparr>"
  by (auto simp: git_Remove_def split: option.splits)

lemma git_CommitObject_None:
  "git_CommitObject w h s = (None, s1) \<longleftrightarrow>
   fault w OpCommitObject = None \<and> 0 < h \<and> h \<le> length (objects s) \<and>
   s1 = ev (EvCommitObject h) s"
  by (auto simp: git_CommitObject_def split: option.splits)

lemma git_Push_None:
  "git_Push w r u p s = (None, s1) \<longleftrightarrow>
   fault w OpPush = None \<and> s1 = (ev (EvPush r u p) s)\<lparr>pushed := Some (headCommit s)\<rparr>"
  by (auto simp: git_Push_def split: option.splits)

lemma scanVendor_iff: "scanVendor fs b \<longleftrightarrow> b \<or> (''vendor'', True) \<in> set fs"
  by (induction fs b rule: scanVendor.induct) auto

lemma isDir_iff: "isDir n \<longleftrightarrow> n = Dir"
  by (cases n) simp_all

lemma vendor_entry:
  assumes "distinct (map fst t)"
  shows "scanVendor (map (\<lambda>(p, n). (p, isDir n)) (filter (\<lambda>(p, n). CHR ''/'' \<notin> set p) t)) False
     \<longleftrightarrow> map_of t ''vendor'' = Some Dir"
proof -
  have "(''vendor'', True) \<in>
      set (map (\<lambda>(p, n). (p, isDir n)) (filter (\<lambda>(p, n). CHR ''/'' \<notin> set p) t))
     \<longleftrightarrow> (''vendor'', Dir) \<in> set t"
  proof
    assume "(''vendor'', True) \<in>
      set (map (\<lambda>(p, n). (p, isDir n)) (filter (\<lambda>(p, n). CHR ''/'' \<notin> set p) t))"
    then show "(''vendor'', Dir) \<in> set t"
      by (auto simp: isDir_iff)
  next
    assume a: "(''vendor'', Dir) \<in> set t"
    have "(''vendor'', True) = (\<lambda>(p, n). (p, isDir n)) (''vendor'', Dir)"
      by simp
    moreover have "(''vendor'', Dir) \<in> set (filter (\<lambda>(p, n). CHR ''/'' \<notin> set p) t)"
      using a by simp
    ultimately show "(''vendor'', True) \<in>
      set (map (\<lambda>(p, n). (p, isDir n)) (filter (\<lambda>(p, n). CHR ''/'' \<notin> set p) t))"
      unfolding set_map by (rule image_eqI)
  qed
  then show ?thesis
    using assms by (simp add: scanVendor_iff)
qed

lemma checkout_resolved:
  assumes "(case git_Checkout w False b s of
         (Some e, s3) \<Rightarrow> git_Checkout w True b s3
       | (None, s3) \<Rightarrow> (None, s3)) = (None, s4)"
    and "workspace s = Some t" and "distinct (map fst t)"
  shows "\<exists>co t4. (co = [EvCheckout False b] \<or> co = [EvCheckout False b, EvCheckout True b]) \<and>
     trace s4 = trace s @ co \<and> workspace s4 = Some t4 \<and> distinct (map fst t4) \<and>
     objects s4 = objects s \<and> conf s4 = conf s \<and> clock s4 = clock s \<and>
     headCommit s4 = headCommit s \<and> pushed s4 = pushed s"
proof (cases "fault w (OpCheckout False) = None \<and> b \<in> set (branches s)")
  case True
  then have "s4 = (ev (EvCheckout False b) s)
                  \<lparr>workspace := Some (AList.clearjunk (branchTree w b)),
                   staged := files_of (AList.clearjunk (branchTree w b)),
                   current := b\<rparr>"
    using assms(1) by (simp add: git_Checkout_def)
  then show ?thesis
    by (simp add: ev_def)
next
  case False
  then have f: "git_Checkout w False b s =
      (Some (case fault w (OpCheckout False) of Some e \<Rightarrow> e | None \<Rightarrow> referenceNotFound),
       ev (EvCheckout False b) s)"
    by (auto simp: git_Checkout_def split: option.splits)
  then have g: "git_Checkout w True b (ev (EvCheckout False b) s) = (None, s4)"
    using assms(1) by simp
  then have "s4 = (ev (EvCheckout True b) (ev (EvCheckout False b) s))
                  \<lparr>branches := b # branches (ev (EvCheckout False b) s), current := b\<rparr>"
    by (simp add: git_Checkout_def split: option.splits if_splits)
  then show ?thesis
    using assms(2,3) by (simp add: ev_def)
qed

lemma handleRewrite_success:
  assumes ok: "handleRewrite w dir token cmd s0 = (None, s')"
    and ws: "workspace s0 = Some t0" and d: "distinct (map fst t0)"
  shows "\<exists>t co fl tf.
     (co = [EvCheckout False (''refs/heads/'' @ branchName)] \<or>
      co = [EvCheckout False (''refs/heads/'' @ branchName),
            EvCheckout True (''refs/heads/'' @ branchName)]) \<and>
     trace s' = trace s0 @ [EvChdir dir, EvWorktree] @ co @
       [EvReadDir dir, EvWriteFile yamlName yamlDataRewrite] @
       (if hasVendor t then [EvWriteFile ignoreFileName ignoreData] else []) @
       [EvChdir dir, EvRun cmd t, EvAddGlob ''.'', EvRemove yamlName] @
       (if hasVendor t then [EvRemove ignoreFileName] else []) @
       [EvCommit commitMessageRewrite (Username (conf s0)) (Email (conf s0)),
        EvCommitObject (Suc (length (objects s0))),
        EvPush ''origin'' ''emptystring'' token] \<and>
     map_of t yamlName = Some (File yamlDataRewrite) \<and>
     (hasVendor t \<longrightarrow> map_of t ignoreFileName = Some (File ignoreData)) \<and>
     objects s' = objects s0 @
       [\<lparr>message = commitMessageRewrite, authorName = Username (conf s0),
         authorEmail = Email (conf s0), authorWhen = clock s0, files = fl\<rparr>] \<and>
     yamlName \<notin> fst ` set fl \<and> (hasVendor t \<longrightarrow> ignoreFileName \<notin> fst ` set fl) \<and>
     workspace s' = Some tf \<and> map_of tf yamlName = None \<and>
     (hasVendor t \<longrightarrow> map_of tf ignoreFileName = None) \<and>
     pushed s' = Some (headCommit s') \<and>
     headCommit s' =
       (if commitFault w = None then Suc (length (objects s0)) else headCommit s0)"
proof -
  obtain s1 s2 s4 fs s5 s6 s7 s8 s9 s10 s11 h e s12 s13 where st:
      "os_Chdir w InHandleRewrite dir s0 = (None, s1)"
      "git_Worktree w s1 = (None, s2)"
      "(case git_Checkout w False (''refs/heads/'' @ branchName) s2 of
         (Some e, s3) \<Rightarrow> git_Checkout w True (''refs/heads/'' @ branchName) s3
       | (None, s3) \<Rightarrow> (None, s3)) = (None, s4)"
      "ioutil_ReadDir w dir s4 = (Inr fs, s5)"
      "ioutil_WriteFile w yamlName yamlDataRewrite s5 = (None, s6)"
      "(if scanVendor fs False then ioutil_WriteFile w ignoreFileName ignoreData s6
       else (None, s6)) = (None, s7)"
      "runCmd w dir cmd s7 = (None, s8)"
      "git_AddGlob w ''.'' s8 = (None, s9)"
      "git_Remove w yamlName s9 = (None, s10)"
      "(if scanVendor fs False then git_Remove w ignoreFileName s10 else (None, s10)) =
        (None, s11)"
      "git_Commit w commitMessageRewrite (Username (conf s11)) (Email (conf s11)) s11 =
        ((h, e), s12)"
      "git_CommitObject w h s12 = (None, s13)"
      "git_Push w ''origin'' ''emptystring'' token s13 = (None, s')"
    using ok by (rule handleRewrite_steps)
  have s2: "s2 = ev EvWorktree (ev (EvChdir dir) s0)"
    using st(1,2) by (simp add: os_Chdir_None git_Worktree_None)
  have ws2: "workspace s2 = Some t0"
    by (simp add: s2 ev_def ws)
  obtain co t4 where c4:
    "co = [EvCheckout False (''refs/heads/'' @ branchName)] \<or>
     co = [EvCheckout False (''refs/heads/'' @ branchName),
           EvCheckout True (''refs/heads/'' @ branchName)]"
    "trace s4 = trace s2 @ co" "workspace s4 = Some t4" "distinct (map fst t4)"
    "objects s4 = objects s2" "conf s4 = conf s2" "clock s4 = clock s2"
    "headCommit s4 = headCommit s2" "pushed s4 = pushed s2"
    using checkout_resolved [OF st(3) ws2 d] by blast
  have s5: "s5 = ev (EvReadDir dir) s4"
    and fs: "fs = map (\<lambda>(p, n). (p, isDir n)) (filter (\<lambda>(p, n). CHR ''/'' \<notin> set p) t4)"
    using st(4) c4(3) by (auto simp: ioutil_ReadDir_Inr)
  have v: "scanVendor fs False \<longleftrightarrow> hasVendor t4"
    using vendor_entry [OF c4(4)] by (simp add: fs hasVendor_def)
  define t6 where "t6 = AList.update yamlName (File yamlDataRewrite) t4"
  have s6: "s6 = (ev (EvWriteFile yamlName yamlDataRewrite) s5)\<lparr>workspace := Some t6\<rparr>"
    using st(5) c4(3) by (auto simp: ioutil_WriteFile_None s5 ev_def t6_def)
  define t7 where "t7 = (if hasVendor t4 then AList.update ignoreFileName (File ignoreData) t6 else t6)"
  have s7: "s7 = (if hasVendor t4
                  then (ev (EvWriteFile ignoreFileName ignoreData) s6)\<lparr>workspace := Some t7\<rparr>
                  else s6)"
    using st(6) by (auto simp: v ioutil_WriteFile_None s6 ev_def t7_def)
  have ws7: "workspace s7 = Some t7"
    by (simp add: s7 s6 t7_def ev_def)
  have hv: "hasVendor t7 \<longleftrightarrow> hasVendor t4"
    by (simp add: hasVendor_def t7_def t6_def update_conv' yamlName_def ignoreFileName_def)
  have y7: "map_of t7 yamlName = Some (File yamlDataRewrite)"
    by (simp add: t7_def t6_def update_conv' yamlName_def ignoreFileName_def)
  have i7: "hasVendor t4 \<longrightarrow> map_of t7 ignoreFileName = Some (File ignoreData)"
    by (simp add: t7_def update_conv')
  define t8 where "t8 = AList.clearjunk (fst (tool w cmd t7))"
  have s8: "s8 = (ev (EvRun cmd t7) (ev (EvChdir dir) s7))\<lparr>workspace := Some t8\<rparr>"
    using st(7) ws7 by (auto simp: runCmd_None t8_def)
  have s9: "s9 = (ev (EvAddGlob ''.'') s8)\<lparr>staged := files_of t8\<rparr>"
    using st(8) by (auto simp: git_AddGlob_None s8 ev_def)
  have s10: "s10 = (ev (EvRemove yamlName) s9)
      \<lparr>staged := AList.delete yamlName (files_of t8),
       workspace := Some (AList.delete yamlName t8)\<rparr>"
    using st(9) by (auto simp: git_Remove_None s9 s8 ev_def)
  define fl where "fl = (if hasVendor t4
      then AList.delete ignoreFileName (AList.delete yamlName (files_of t8))
      else AList.delete yamlName (files_of t8))"
  define tf where "tf = (if hasVendor t4
      then AList.delete ignoreFileName (AList.delete yamlName t8)
      else AList.delete yamlName t8)"
  have s11: "s11 = (if hasVendor t4 then ev (EvRemove ignoreFileName) s10 else s10)
      \<lparr>staged := fl, workspace := Some tf\<rparr>"
    using st(10) by (auto simp: v git_Remove_None s10 ev_def fl_def tf_def)
  have tr11: "trace s11 = trace s0 @ [EvChdir dir, EvWorktree] @ co @
       [EvReadDir dir, EvWriteFile yamlName yamlDataRewrite] @
       (if hasVendor t7 then [EvWriteFile ignoreFileName ignoreData] else []) @
       [EvChdir dir, EvRun cmd t7, EvAddGlob ''.'', EvRemove yamlName] @
       (if hasVendor t7 then [EvRemove ignoreFileName] else [])"
    by (simp add: s11 s10 s9 s8 s7 s6 s5 c4(2) s2 hv ev_def)
  have fr11: "objects s11 = objects s0" "conf s11 = conf s0" "clock s11 = clock s0"
    "headCommit s11 = headCommit s0" "staged s11 = fl" "workspace s11 = Some tf"
    using c4(5-8) by (simp_all add: s11 s10 s9 s8 s7 s6 s5 s2 ev_def)
  have yfl: "yamlName \<notin> fst ` set fl"
    using delete_notin_dom [of yamlName "files_of t8"]
      dom_delete_subset [of ignoreFileName "AList.delete yamlName (files_of t8)"]
    by (auto simp: fl_def)
  have ifl: "hasVendor t4 \<longrightarrow> ignoreFileName \<notin> fst ` set fl"
    using delete_notin_dom [of ignoreFileName "AList.delete yamlName (files_of t8)"]
    by (auto simp: fl_def)
  have ytf: "map_of tf yamlName = None"
    by (simp add: tf_def delete_conv')
  have itf: "hasVendor t4 \<longrightarrow> map_of tf ignoreFileName = None"
    by (simp add: tf_def delete_conv')
  define c where "c = \<lparr>message = commitMessageRewrite, authorName = Username (conf s0),
         authorEmail = Email (conf s0), authorWhen = clock s0, files = fl\<rparr>"
  have hpos: "0 < h"
    using st(12) by (simp add: git_CommitObject_None)
  have s12: "h = Suc (length (objects s0)) \<and>
      s12 = (if commitFault w = None
             then (ev (EvCommit commitMessageRewrite (Username (conf s0)) (Email (conf s0))) s11)
                    \<lparr>objects := objects s0 @ [c], headCommit := h\<rparr>
             else (ev (EvCommit commitMessageRewrite (Username (conf s0)) (Email (conf s0))) s11)
                    \<lparr>objects := objects s0 @ [c]\<rparr>)"
    using st(11) hpos
    by (auto simp: git_Commit_def Let_def fr11 c_def split: option.splits if_splits)
  have s13: "s13 = ev (EvCommitObject h) s12"
    using st(12) by (simp add: git_CommitObject_None)
  have sf: "s' = (ev (EvPush ''origin'' ''emptystring'' token) s13)
      \<lparr>pushed := Some (headCommit s13)\<rparr>"
    using st(13) by (simp add: git_Push_None)
  have trf: "trace s' = trace s11 @
       [EvCommit commitMessageRewrite (Username (conf s0)) (Email (conf s0)),
        EvCommitObject (Suc (length (objects s0))),
        EvPush ''origin'' ''emptystring'' token]"
    using s12 by (simp add: sf s13 ev_def)
  have frf: "objects s' = objects s0 @ [c]" "workspace s' = Some tf"
    "pushed s' = Some (headCommit s')"
    "headCommit s' =
       (if commitFault w = None then Suc (length (objects s0)) else headCommit s0)"
    using s12 fr11 by (simp_all add: sf s13 ev_def)
  show ?thesis
    using c4(1) trf tr11 y7 i7 frf yfl ifl ytf itf hv
    by (intro exI [of _ t7] exI [of _ co] exI [of _ fl] exI [of _ tf]) (simp add: c_def)
qed

section \<open>The claims\<close>

subsection \<open>Configuration content per mode\<close>

text \<open>
  Claim C1: a review-mode run writes the review content (two tenet imports) to the
  analysis-configuration file, a rewrite-mode run the rewrite content (one import).
  The code does not: \<open>handleReview\<close> writes \<open>yamlDataRewrite\<close> (line 276), and the
  constant \<open>yamlDataReview\<close> is used nowhere. In the review run in which every step
  succeeds, the file is written once, with the one-import content.
\<close>

theorem review_run_writes_rewrite_content:
  "fst (main reviewWorld) = Success \<and>
   EvWriteFile yamlName yamlDataRewrite \<in> set (trace (snd (main reviewWorld))) \<and>
   EvWriteFile yamlName yamlDataReview \<notin> set (trace (snd (main reviewWorld))) \<and>
   yamlDataRewrite \<noteq> yamlDataReview"
  by (simp add: model_defs example_defs yamlDataRewrite_def yamlDataReview_def)

subsection \<open>Removal of the workspace\<close>

text \<open>
  Claim C2: once the workspace directory has been created, it no longer exists when the
  process exits, on every exit path. The code registers \<open>defer os.RemoveAll(dir)\<close>
  and then leaves through \<open>log.Fatal\<close> on every failure, which exits without running
  deferred calls; only \<open>runCmd\<close> removes the directory itself before it fails. In the
  rewrite run whose push is refused the process ends fatally, no removal was issued and
  the directory is still on disk.
\<close>

theorem push_failure_leaves_workspace:
  "fst (main pushFailWorld) = Fatal (Some ''authentication required'') \<and>
   workspace (snd (main pushFailWorld)) \<noteq> None \<and>
   EvRemoveAll (tempDirName pushFailWorld) \<notin> set (trace (snd (main pushFailWorld)))"
  by (simp add: model_defs example_defs yamlDataRewrite_def)

subsection \<open>Errors of the publishing steps\<close>

text \<open>
  Claim C3: in rewrite mode a failure of checkout, staging, commit or push aborts the
  run with that step's error; an error of the commit operation fails the run and no
  push is attempted. The code assigns the error of \<open>Commit\<close> (line 228) and overwrites
  it with the result of \<open>CommitObject\<close> (line 236) before reading it. In the run in
  which \<open>Commit\<close> has written the commit object and then fails, the push is issued and
  the process ends successfully, with the old head pushed.
\<close>

theorem commit_error_is_dropped:
  "commitFault commitFailWorld = Some (True, ''reference has changed concurrently'') \<and>
   fst (main commitFailWorld) = Success \<and>
   EvPush ''origin'' ''emptystring'' ''t0k'' \<in> set (trace (snd (main commitFailWorld))) \<and>
   pushed (snd (main commitFailWorld)) = Some 0"
  by (simp add: model_defs example_defs yamlDataRewrite_def)

subsection \<open>Strict decoding of the credentials file\<close>

text \<open>
  Claim C4: loading the credentials file fails when it has a field other than the three
  required ones. The code calls the strict decoder and then returns \<open>result, nil\<close>
  (line 305): the decoder's error is never returned. With a file that has a fourth field,
  which the decoder reports, the load returns the credentials and the run goes on to
  its end.
\<close>

theorem strict_decoder_error_is_dropped:
  "snd (unmarshalStrict extraFieldWorld (configData extraFieldWorld)) =
     Some ''yaml: unmarshal errors: line 4: field shell not found in type main.config'' \<and>
   fst (unmarshalConfigFile extraFieldWorld (initial extraFieldWorld)) = Inr exampleConfig \<and>
   fst (main extraFieldWorld) = Success"
  by (simp add: model_defs example_defs yamlDataRewrite_def)

subsection \<open>Errors of the fork request\<close>

text \<open>
  Claim C6: when the fork request returns an error whose message contains the
  "scheduled" text, the run does not abort and goes on to the polling phase; on any
  other error of the fork request the run fails at once, without polling. Here: in a
  run that reaches the fork request (four arguments, results directory created,
  credentials file read) and whose request fails with \<open>e\<close>, if \<open>e\<close> contains the
  text then the first readiness query is issued right after the request, and otherwise
  the process ends with \<open>log.Fatal e\<close> and the request is the last thing it did.
\<close>

theorem fork_error_dispatch:
  assumes "length (args w) = 4" and "fault w OpMkdirAll = None"
    and "fault w OpReadFile = None" and "snd (createFork w) = Inl e"
  shows "(contains e scheduledMessage \<longrightarrow>
           prefix [EvMkdirAll (reviewResultsDir w), EvReadFile configFile,
                   EvCreateFork (args w ! 2) (args w ! 3),
                   EvGet (Username (fst (unmarshalStrict w (configData w)))) (args w ! 3)]
             (trace (snd (main w)))) \<and>
         (\<not> contains e scheduledMessage \<longrightarrow>
           fst (main w) = Fatal (Some e) \<and>
           trace (snd (main w)) =
             [EvMkdirAll (reviewResultsDir w), EvReadFile configFile,
              EvCreateFork (args w ! 2) (args w ! 3)])"
proof -
  obtain c ce where u: "unmarshalStrict w (configData w) = (c, ce)"
    by (metis surj_pair)
  define s3 where "s3 = \<lparr>clock = startTime w + fst (createFork w),
     trace = [EvMkdirAll (reviewResultsDir w), EvReadFile configFile,
              EvCreateFork (args w ! 2) (args w ! 3)],
     conf = c, workspace = None, staged = [], branches = [], current = [], objects = [],
     headCommit = 0, pushed = None\<rparr>"
  have m: "main w =
     (if \<not> contains e scheduledMessage then (Fatal (Some e), s3)
      else mainForked w (Some e) s3)"
    using assms
    by (simp add: main_def os_MkdirAll_def unmarshalConfigFile_def ioutil_ReadFile_def
        client_CreateFork_def initial_def ev_def u s3_def)
  show ?thesis
  proof (cases "contains e scheduledMessage")
    case True
    then show ?thesis
      using mainForked_first_query [of s3 w "Some e"] by (simp add: m u s3_def)
  next
    case False
    then show ?thesis by (simp add: m s3_def)
  qed
qed

theorem fork_error_dispatch_witness:
  "prefix [EvMkdirAll ''/home/op/speedlingo-review-results'', EvReadFile ''config.yaml'',
           EvCreateFork ''acme'' ''widget'', EvGet ''bot'' ''widget'']
     (trace (snd (main neverReadyWorld))) \<and>
   fst (main forkRefusedWorld) = Fatal (Some ''403 Forbidden'') \<and>
   trace (snd (main forkRefusedWorld)) =
     [EvMkdirAll ''/home/op/speedlingo-review-results'', EvReadFile ''config.yaml'',
      EvCreateFork ''acme'' ''widget'']"
  using fork_error_dispatch [of neverReadyWorld scheduledMessage]
    fork_error_dispatch [of forkRefusedWorld "''403 Forbidden''"]
  by (simp add: example_defs reviewResultsDir_def configFile_def scheduledMessage_def)

subsection \<open>The polling deadline\<close>

text \<open>
  Claim C7: when the readiness query never succeeds, the loop waits 2 seconds between
  attempts and ends the process fatally once the 5-minute deadline is exceeded,
  reporting the last observed error, and the run does no clone, commit or push. Here,
  with the clock of the model (a forge call takes its latency, a sleep its duration):
  in a run that reaches the loop and whose queries all fail, there are \<open>n > 0\<close>
  queries, each followed by a sleep of two seconds; the process ends with
  \<open>log.Fatal\<close> of the error of the last query; at that moment the clock is past the
  deadline, five minutes after the return of the fork request (line 80), and the check
  before the last query was not; the trace has no clone, commit or push, there is no
  workspace, no commit object and nothing pushed.
\<close>

theorem poll_deadline:
  assumes "length (args w) = 4" and "fault w OpMkdirAll = None"
    and "fault w OpReadFile = None"
    and "case snd (createFork w) of Inl e \<Rightarrow> contains e scheduledMessage | Inr rf \<Rightarrow> True"
    and "\<forall>j. isl (snd (getRepository w j))"
  shows "\<exists>n e. 0 < n \<and> snd (getRepository w (n - 1)) = Inl e \<and>
      fst (main w) = Fatal (Some e) \<and>
      trace (snd (main w)) =
        [EvMkdirAll (reviewResultsDir w), EvReadFile configFile,
         EvCreateFork (args w ! 2) (args w ! 3)] @
        concat (replicate n
          [EvGet (Username (fst (unmarshalStrict w (configData w)))) (args w ! 3),
           EvSleep (time_Second * 2)]) \<and>
      startTime w + fst (createFork w) + time_Minute * 5 < clock (snd (main w)) \<and>
      clock (snd (main w)) \<le>
        startTime w + fst (createFork w) + time_Minute * 5 +
        fst (getRepository w (n - 1)) + time_Second * 2 \<and>
      list_all (\<lambda>x. \<not> isCloneCommitPush x) (trace (snd (main w))) \<and>
      workspace (snd (main w)) = None \<and> objects (snd (main w)) = [] \<and>
      pushed (snd (main w)) = None"
proof -
  obtain c ce where u: "unmarshalStrict w (configData w) = (c, ce)"
    by (metis surj_pair)
  define s3 where "s3 = \<lparr>clock = startTime w + fst (createFork w),
     trace = [EvMkdirAll (reviewResultsDir w), EvReadFile configFile,
              EvCreateFork (args w ! 2) (args w ! 3)],
     conf = c, workspace = None, staged = [], branches = [], current = [], objects = [],
     headCommit = 0, pushed = None\<rparr>"
  define e0 where "e0 = (case snd (createFork w) of Inl e \<Rightarrow> Some e | Inr rf \<Rightarrow> None)"
  define T where "T = clock s3 + time_Minute * 5"
  have m: "main w = mainForked w e0 s3"
    using assms(1-4)
    by (auto simp: main_def os_MkdirAll_def unmarshalConfigFile_def ioutil_ReadFile_def
        client_CreateFork_def initial_def ev_def u s3_def e0_def split: sum.splits)
  have nr: "neverReady w"
    using assms(5) by (simp add: neverReady_def)
  obtain n where p:
    "fst (pollFork w T (Username c) (args w ! 3) 0 e0 s3) =
       Inl (if n = 0 then e0 else Some (projl (snd (getRepository w (0 + n - 1)))))"
    "trace (snd (pollFork w T (Username c) (args w ! 3) 0 e0 s3)) =
       trace s3 @ concat (replicate n [EvGet (Username c) (args w ! 3), EvSleep (time_Second * 2)])"
    "T < clock (snd (pollFork w T (Username c) (args w ! 3) 0 e0 s3))"
    "n = 0 \<longleftrightarrow> T < clock s3"
    "0 < n \<longrightarrow> clock (snd (pollFork w T (Username c) (args w ! 3) 0 e0 s3)) \<le>
       T + fst (getRepository w (0 + n - 1)) + time_Second * 2"
    using pollFork_never [OF nr, of T "Username c" "args w ! 3" 0 e0 s3] by blast
  have n: "0 < n"
    using p(4) by (simp add: T_def)
  obtain e where e: "snd (getRepository w (n - 1)) = Inl e"
    using assms(5) by (metis isl_def)
  have f: "fst (pollFork w T (Username c) (args w ! 3) 0 e0 s3) = Inl (Some e)"
    using p(1) n e by simp
  have mf: "main w = (Fatal (Some e), snd (pollFork w T (Username c) (args w ! 3) 0 e0 s3))"
    using f
    by (cases "pollFork w T (Username c) (args w ! 3) 0 e0 s3")
       (simp add: m mainForked_def T_def s3_def)
  have fr: "workspace (snd (main w)) = None \<and> objects (snd (main w)) = [] \<and>
      pushed (snd (main w)) = None"
    using pollFork_frame [of w T "Username c" "args w ! 3" 0 e0 s3] by (simp add: mf s3_def)
  have tr: "trace (snd (main w)) =
        [EvMkdirAll (reviewResultsDir w), EvReadFile configFile,
         EvCreateFork (args w ! 2) (args w ! 3)] @
        concat (replicate n [EvGet (Username c) (args w ! 3), EvSleep (time_Second * 2)])"
    using p(2) by (simp add: mf s3_def)
  have la: "list_all (\<lambda>x. \<not> isCloneCommitPush x) (trace (snd (main w)))"
    by (simp add: tr list_all_iff)
  show ?thesis
    using n e mf tr la fr p(3) p(5)
    by (intro exI [of _ n] exI [of _ e]) (simp add: u T_def s3_def)
qed

theorem poll_deadline_witness:
  "\<exists>n. 0 < n \<and> fst (main neverReadyWorld) = Fatal (Some ''404 Not Found'') \<and>
     trace (snd (main neverReadyWorld)) =
       [EvMkdirAll ''/home/op/speedlingo-review-results'', EvReadFile ''config.yaml'',
        EvCreateFork ''acme'' ''widget''] @
       concat (replicate n [EvGet ''bot'' ''widget'', EvSleep 2000000000]) \<and>
     300000000001 < clock (snd (main neverReadyWorld)) \<and>
     workspace (snd (main neverReadyWorld)) = None \<and>
     pushed (snd (main neverReadyWorld)) = None"
  using poll_deadline [of neverReadyWorld]
  by (auto simp: example_defs reviewResultsDir_def configFile_def scheduledMessage_def
      time_Second_def time_Minute_def)

subsection \<open>Unknown mode\<close>




end
